theory Spec2Isabelle
  imports Main "HOL-Library.Word"
begin

section \<open>Values handled by the API controllers (internal/api/server.go)\<close>

text \<open>
  A Go \<open>error\<close> is an interface value. The controllers observe exactly two things about
  one: the text of \<open>err.Error()\<close> and whether
  \<open>errors.Is(err, repositories.ErrClaimDoesNotExist)\<close> holds. An error value is modelled
  by these two observations. A \<open>nil\<close> error is \<open>None\<close> of \<open>error option\<close>; a call that
  returns \<open>(value, error)\<close> is a sum, \<open>Inl\<close> the error.
\<close>

record error =
  Error :: string
  Is_ErrClaimDoesNotExist :: bool

text \<open>
  A Go \<open>interface{}\<close> value: \<open>nil\<close>, a string, or a value of some other dynamic type
  (kept as an opaque text). The type assertion \<open>x.(string)\<close> succeeds on strings only.
\<close>

datatype any = AnyNil | AnyString string | AnyOther string

fun assert_string :: "any \<Rightarrow> string option" where
  "assert_string (AnyString v) = Some v"
| "assert_string AnyNil = None"
| "assert_string (AnyOther _) = None"

text \<open>Indexing a Go map: a missing key gives the zero value, here the nil interface.\<close>

definition index :: "(string \<rightharpoonup> any) \<Rightarrow> string \<Rightarrow> any" where
  "index m k = (case m k of None \<Rightarrow> AnyNil | Some v \<Rightarrow> v)"

text \<open>\<open>fmt.Sprintf\<close> with the verb \<open>%d\<close>: an integer in decimal.\<close>

definition digit :: "nat \<Rightarrow> char" where
  "digit d = ''0123456789'' ! d"

fun digits :: "nat \<Rightarrow> string" where
  "digits n = (if n < 10 then [digit n] else digits (n div 10) @ [digit (n mod 10)])"

definition Sprintf_d :: "int \<Rightarrow> string" where
  "Sprintf_d i = (if i < 0 then CHR ''-'' # digits (nat (- i)) else digits (nat i))"

subsection \<open>Requests\<close>

text \<open>
  The request objects of the generated API. \<open>CreateClaimRequest\<close> is the JSON body of
  CreateClaim; a Go pointer field that may be nil is an \<open>option\<close>.
\<close>

record CreateClaimRequest =
  CredentialSchema :: string
  CredentialSubject :: "string \<rightharpoonup> any"
  Expiration :: "64 word option"
  MerklizedRootPosition :: "string option"
  SubjectPosition :: "string option"
  Type :: string
  Version :: "32 word option"

record CreateClaimRequestObject =
  Identifier :: string
  Body :: CreateClaimRequest

record RevokeClaimRequestObject =
  rev_Identifier :: string
  rev_Nonce :: "64 word"

subsection \<open>Schema, claim request, credential, core-claim options, proof\<close>

text \<open>
  The resolved schema: \<open>schema.Metadata\<close> is a pointer, nil (\<open>None\<close>) when the schema document
  has no metadata; \<open>schema.Metadata.Uris\<close> is a \<open>map[string]interface{}\<close>; whatever else the
  metadata holds is the opaque \<open>meta_rest\<close>.
\<close>

record 'sch SchemaMetadata =
  Uris :: "string \<rightharpoonup> any"
  meta_rest :: 'sch

record 'sch Schema =
  Metadata :: "'sch SchemaMetadata option"

text \<open>\<open>ports.ClaimRequest\<close>, the value \<open>ports.NewClaimRequest\<close> builds.\<close>

record ('did, 'sch) ClaimRequest =
  claimReq_Schema :: "'sch Schema"
  claimReq_DID :: 'did
  claimReq_CredentialSchema :: string
  claimReq_CredentialSubject :: "string \<rightharpoonup> any"
  claimReq_Expiration :: "64 word option"
  claimReq_Type :: string
  claimReq_Version :: "32 word"
  claimReq_SubjectPos :: string
  claimReq_MerklizedRootPosition :: string

text \<open>The verifiable credential: the controller reads its \<open>CredentialStatus\<close> only.\<close>

record 'vc W3CCredential =
  vc_CredentialStatus :: any
  vc_rest :: 'vc

record CoreClaimOptions =
  opt_RevNonce :: "64 word"
  opt_MerklizedRootPosition :: string
  opt_Version :: "32 word"
  opt_SubjectPosition :: string
  opt_Updatable :: bool

text \<open>The signature proof: the controller writes \<open>proof.IssuerData.CredentialStatus\<close>.\<close>

record 'proof BJJSignatureProof2021 =
  IssuerData_CredentialStatus :: any
  proof_rest :: 'proof

subsection \<open>The persisted claim\<close>

text \<open>
  Modelled from the spec: the persisted claim \<open>domain.Claim\<close> (package internal/core/domain is
  not under src/), with the fields of spec section 3 that the controller touches. Its
  three JSON columns \<open>SignatureProof\<close>, \<open>Data\<close> and \<open>CredentialStatus\<close> are values of the
  library type \<open>pgtype.JSONB\<close>: a status, which is undefined (the zero value), null or
  present, and the bytes when present. A successful \<open>Set\<close> replaces the column by a new
  value; which value it stores for which source, and when it fails, is the library's
  doing and a parameter of the model (\<open>JSONB_Set\<close> below). The value stored can be null:
  that is what \<open>Set\<close> does with a nil source.
\<close>

datatype JSONB = JSONB_Undefined | JSONB_Null | JSONB_Present string

record 'core Claim =
  ID :: "128 word"
  claim_Identifier :: "string option"
  Issuer :: string
  SchemaURL :: string
  SchemaType :: string
  RevNonce :: "64 word"
  CoreClaim :: 'core
  SignatureProof :: JSONB
  Data :: JSONB
  CredentialStatus :: JSONB

text \<open>What the three \<open>Set\<close> calls of CreateClaim are given.\<close>

datatype 'vc Set_src =
  Src_bytes string
| Src_credential "'vc W3CCredential"
| Src_any any

subsection \<open>Identity\<close>

record IdentityState =
  BlockNumber :: "int option"
  BlockTimestamp :: "int option"
  ClaimsTreeRoot :: "string option"
  CreatedAt :: int
  ModifiedAt :: int
  PreviousState :: "string option"
  RevocationTreeRoot :: "string option"
  RootOfRoots :: "string option"
  State :: "string option"
  Status :: string
  TxID :: "string option"

record Identity =
  identity_Identifier :: string
  identity_Immutable :: bool
  identity_Relay :: string
  identity_State :: IdentityState

subsection \<open>Responses\<close>

text \<open>
  The response objects of the generated API. \<open>N400JSONResponse\<close>, \<open>N404JSONResponse\<close> and
  \<open>N500JSONResponse\<close> hold one field, \<open>Message\<close>: the constructor's argument. A controller
  returns \<open>(response, error)\<close>; \<open>nil\<close> is \<open>None\<close> on either side.
\<close>

text \<open>
  A call of CreateClaim either returns such a pair or panics, on the nil-pointer
  dereference of \<open>schema.Metadata\<close>; a panic returns nothing.
\<close>

datatype 'a outcome = Return 'a | Panic

record Health200JSONResponse =
  Cache :: bool
  Db :: bool

record CreateIdentity201JSONResponse =
  resp_Identifier :: "string option"
  resp_Immutable :: bool
  resp_Relay :: string
  resp_State :: "IdentityState option"

datatype CreateClaimResponseObject =
  CreateClaim201JSONResponse string
| CreateClaim400JSONResponse string
| CreateClaim500JSONResponse string

datatype RevokeClaimResponseObject =
  RevokeClaim202JSONResponse string
| RevokeClaim404JSONResponse string
| RevokeClaim500JSONResponse string

section \<open>The world outside the controllers\<close>

text \<open>
  What a controller can affect: the entropy source behind \<open>rand.Int64\<close>, the persistent
  state behind the three services, and the log. \<open>calls\<close> is a record of the collaborator
  calls made so far, in order, kept so that properties about which calls happen can be
  stated: the methods of \<open>identityService\<close>, \<open>claimService\<close> and \<open>schemaService\<close>, and the
  nonce generator.
\<close>

datatype 'core call =
  Call_Create string
| Call_LoadSchema string
| Call_Int64
| Call_CreateVC "64 word"
| Call_Process string string
| Call_GetAuthClaim
| Call_SignClaimEntry
| Call_GetRevocationSource string "64 word"
| Call_Save "'core Claim"
| Call_Revoke string "64 word" string

datatype level = Level_Error | Level_Warn

record ('rng, 'st, 'core) world =
  rng :: 'rng
  store :: 'st
  calls :: "'core call list"
  logged :: "(level \<times> string \<times> error option) list"

definition invoke :: "'core call \<Rightarrow> ('rng, 'st, 'core) world \<Rightarrow> ('rng, 'st, 'core) world" where
  "invoke c w = w\<lparr>calls := calls w @ [c]\<rparr>"

definition log_Error :: "string \<Rightarrow> error \<Rightarrow> ('rng, 'st, 'core) world \<Rightarrow> ('rng, 'st, 'core) world" where
  "log_Error msg err w = w\<lparr>logged := logged w @ [(Level_Error, msg, Some err)]\<rparr>"

definition log_Warn :: "string \<Rightarrow> ('rng, 'st, 'core) world \<Rightarrow> ('rng, 'st, 'core) world" where
  "log_Warn msg w = w\<lparr>logged := logged w @ [(Level_Warn, msg, None)]\<rparr>"

section \<open>The server and the packages it calls\<close>

text \<open>
  Modelled from the spec: the contracts of the collaborators (the interfaces of package
  internal/core/ports are not under src/). Spec sections 4.1, 5 and 6: the Claim Store is
  the only mutable shared resource; \<open>Save\<close>, \<open>Revoke\<close> and the Identity Manager's \<open>Create\<close>
  change the persistent state, every other method computes a result from its arguments
  and the state it reads. So the three writers return the new state, the others are
  given the state and return a result.
\<close>

record ('did, 'sch, 'vc, 'core, 'proof, 'st) Server =
  cfg_ServerUrl :: string
  cfg_ServerPort :: int
  identityService_Create :: "'st \<Rightarrow> string \<Rightarrow> (error + Identity) \<times> 'st"
  identityService_SignClaimEntry ::
    "'st \<Rightarrow> 'core Claim \<Rightarrow> 'core \<Rightarrow> error + 'proof BJJSignatureProof2021"
  claimService_CreateVC ::
    "'st \<Rightarrow> ('did, 'sch) ClaimRequest \<Rightarrow> 64 word \<Rightarrow> error + 'vc W3CCredential"
  claimService_GetAuthClaim :: "'st \<Rightarrow> 'did \<Rightarrow> error + 'core Claim"
  claimService_GetRevocationSource :: "'st \<Rightarrow> string \<Rightarrow> 64 word \<Rightarrow> any"
  claimService_Save :: "'st \<Rightarrow> 'core Claim \<Rightarrow> (error + 'core Claim) \<times> 'st"
  claimService_Revoke :: "'st \<Rightarrow> string \<Rightarrow> 64 word \<Rightarrow> string \<Rightarrow> error option \<times> 'st"
  schemaService_LoadSchema :: "'st \<Rightarrow> string \<Rightarrow> error + 'sch Schema"
  schemaService_Process ::
    "'st \<Rightarrow> string \<Rightarrow> string \<Rightarrow> 'vc W3CCredential \<Rightarrow> CoreClaimOptions \<Rightarrow> error + 'core"

text \<open>
  The package-level functions the controllers call, none of them under src/: they are
  parameters of the model. \<open>domain_newClaim\<close> is the part of \<open>domain.FromClaimer\<close> that
  reads the core claim (see \<open>FromClaimer\<close> below); \<open>JSONB_Set\<close> is the column value a
  \<open>Set\<close> on a JSON column stores for a given source, or the error it returns.
\<close>

record ('did, 'sch, 'vc, 'core, 'proof, 'rng) Packages =
  core_ParseDID :: "string \<Rightarrow> error + 'did"
  DID_String :: "'did \<Rightarrow> string"
  ports_NewClaimRequest ::
    "'sch Schema \<Rightarrow> 'did \<Rightarrow> string \<Rightarrow> (string \<rightharpoonup> any) \<Rightarrow> 64 word option \<Rightarrow> string \<Rightarrow>
     32 word option \<Rightarrow> string option \<Rightarrow> string option \<Rightarrow> ('did, 'sch) ClaimRequest"
  rand_Int64 :: "'rng \<Rightarrow> (error + 64 word) \<times> 'rng"
  common_DefineMerklizedRootPosition :: "'sch SchemaMetadata option \<Rightarrow> string \<Rightarrow> string"
  domain_newClaim :: "'core \<Rightarrow> error + 'core Claim"
  json_Marshal :: "'proof BJJSignatureProof2021 \<Rightarrow> error + string"
  JSONB_Set :: "'vc Set_src \<Rightarrow> error + JSONB"
  UUID_String :: "128 word \<Rightarrow> string"

text \<open>
  Modelled from the spec: \<open>domain.FromClaimer\<close> (package internal/core/domain is not under
  src/). Step 7 of section 4.1: it builds the persisted Claim shape from the CoreClaim, the
  schema reference and the credentialType, and it can fail. The schema reference and the
  credential type are recorded as given; every other field, and whether the call fails,
  comes from the core claim.
\<close>

definition FromClaimer ::
  "('did, 'sch, 'vc, 'core, 'proof, 'rng) Packages \<Rightarrow> 'core \<Rightarrow> string \<Rightarrow> string \<Rightarrow>
   error + 'core Claim" where
  "FromClaimer P claim schemaURL schemaType =
     (case domain_newClaim P claim of
        Inl err \<Rightarrow> Inl err
      | Inr res \<Rightarrow> Inr (res\<lparr>SchemaURL := schemaURL, SchemaType := schemaType\<rparr>))"

section \<open>The controllers\<close>

text \<open>\<open>Health\<close> (lines 44-49).\<close>

definition Health ::
  "('did, 'sch, 'vc, 'core, 'proof, 'st) Server \<Rightarrow> ('rng, 'st, 'core) world \<Rightarrow> 'req \<Rightarrow>
   (Health200JSONResponse option \<times> error option) \<times> ('rng, 'st, 'core) world" where
  "Health s w request = ((Some \<lparr>Cache = True, Db = False\<rparr>, None), w)"

text \<open>\<open>CreateIdentity\<close> (lines 87-110).\<close>

definition CreateIdentity ::
  "('did, 'sch, 'vc, 'core, 'proof, 'st) Server \<Rightarrow> ('rng, 'st, 'core) world \<Rightarrow> 'req \<Rightarrow>
   (CreateIdentity201JSONResponse option \<times> error option) \<times> ('rng, 'st, 'core) world" where
  "CreateIdentity s w request =
     (let origin = cfg_ServerUrl s @ '':'' @ Sprintf_d (cfg_ServerPort s);
          w1 = invoke (Call_Create origin) w
      in case identityService_Create s (store w1) origin of (r, st') \<Rightarrow>
         (let w2 = w1\<lparr>store := st'\<rparr>
          in case r of
              Inl err \<Rightarrow> ((None, Some err), w2)
            | Inr identity \<Rightarrow>
                ((Some \<lparr>resp_Identifier = Some (identity_Identifier identity),
                        resp_Immutable = identity_Immutable identity,
                        resp_Relay = identity_Relay identity,
                        resp_State = Some \<lparr>
                          BlockNumber = BlockNumber (identity_State identity),
                          BlockTimestamp = BlockTimestamp (identity_State identity),
                          ClaimsTreeRoot = ClaimsTreeRoot (identity_State identity),
                          CreatedAt = CreatedAt (identity_State identity),
                          ModifiedAt = ModifiedAt (identity_State identity),
                          PreviousState = PreviousState (identity_State identity),
                          RevocationTreeRoot = RevocationTreeRoot (identity_State identity),
                          RootOfRoots = RootOfRoots (identity_State identity),
                          State = State (identity_State identity),
                          Status = Status (identity_State identity),
                          TxID = TxID (identity_State identity)\<rparr>\<rparr>, None), w2)))"

text \<open>
  \<open>RevokeClaim\<close> (lines 222-235). \<open>uint64(request.Nonce)\<close> keeps the 64 bits of the nonce, so
  the word is passed on as it is; the reason given to \<open>Revoke\<close> is the empty string.
\<close>

definition RevokeClaim ::
  "('did, 'sch, 'vc, 'core, 'proof, 'st) Server \<Rightarrow> ('rng, 'st, 'core) world \<Rightarrow>
   RevokeClaimRequestObject \<Rightarrow>
   (RevokeClaimResponseObject option \<times> error option) \<times> ('rng, 'st, 'core) world" where
  "RevokeClaim s w request =
     (let w1 = invoke (Call_Revoke (rev_Identifier request) (rev_Nonce request) []) w
      in case claimService_Revoke s (store w1) (rev_Identifier request) (rev_Nonce request) []
         of (r, st') \<Rightarrow>
         (let w2 = w1\<lparr>store := st'\<rparr>
          in case r of
              Some err \<Rightarrow>
                (if Is_ErrClaimDoesNotExist err
                 then ((Some (RevokeClaim404JSONResponse ''the claim does not exist''), None), w2)
                 else ((Some (RevokeClaim500JSONResponse (Error err)), None), w2))
            | None \<Rightarrow> ((Some (RevokeClaim202JSONResponse ''pending''), None), w2)))"

text \<open>
  \<open>CreateClaim\<close> (lines 113-219). Every \<open>return\<close> of the source has a nil error. Line 142
  reads \<open>schema.Metadata.Uris\<close>: when \<open>schema.Metadata\<close> is nil the call panics there, after
  the credential was built and before anything is logged. The pointers a collaborator
  returns next to a nil error (the schema, the credential, the claims, the proof) are
  taken to be non-nil.
\<close>

definition CreateClaim ::
  "('did, 'sch, 'vc, 'core, 'proof, 'rng) Packages \<Rightarrow>
   ('did, 'sch, 'vc, 'core, 'proof, 'st) Server \<Rightarrow> ('rng, 'st, 'core) world \<Rightarrow>
   CreateClaimRequestObject \<Rightarrow>
   (CreateClaimResponseObject option \<times> error option) outcome \<times> ('rng, 'st, 'core) world" where
  "CreateClaim P s w request =
    (if Identifier request = []
     then (Return (Some (CreateClaim400JSONResponse ''Invalid request identifier''), None), w)
     else
     (case core_ParseDID P (Identifier request) of
        Inl err \<Rightarrow> (Return (Some (CreateClaim400JSONResponse (Error err)), None), w)
      | Inr did \<Rightarrow>
     (let w1 = invoke (Call_LoadSchema (CredentialSchema (Body request))) w in
      case schemaService_LoadSchema s (store w1) (CredentialSchema (Body request)) of
        Inl err \<Rightarrow> (Return (Some (CreateClaim400JSONResponse (Error err)), None), w1)
      | Inr schema \<Rightarrow>
     (let claimReq = ports_NewClaimRequest P schema did (CredentialSchema (Body request))
            (CredentialSubject (Body request)) (Expiration (Body request)) (Type (Body request))
            (Version (Body request)) (SubjectPosition (Body request))
            (MerklizedRootPosition (Body request));
          w2 = invoke Call_Int64 w1 in
      case rand_Int64 P (rng w2) of (r, rng') \<Rightarrow>
     (let w3 = w2\<lparr>rng := rng'\<rparr> in
      case r of
        Inl err \<Rightarrow>
          (Return (Some (CreateClaim500JSONResponse (Error err)), None),
           log_Error ''Can not create a nonce'' err w3)
      | Inr nonce \<Rightarrow>
     (let w4 = invoke (Call_CreateVC nonce) w3 in
      case claimService_CreateVC s (store w4) claimReq nonce of
        Inl err \<Rightarrow>
          (Return (Some (CreateClaim500JSONResponse (Error err)), None),
           log_Error ''Can not create a claim'' err w4)
      | Inr vc \<Rightarrow>
     (case Metadata schema of
        None \<Rightarrow> (Panic, w4)
      | Some metadata \<Rightarrow>
     (case assert_string (index (Uris metadata) ''jsonLdContext'') of
        None \<Rightarrow>
          (Return (Some (CreateClaim400JSONResponse ''invalid jsonLdContext''), None),
           log_Warn ''invalid jsonLdContext'' w4)
      | Some jsonLdContext \<Rightarrow>
     (let credentialType = jsonLdContext @ ''#'' @ Type (Body request);
          mtRootPostion = common_DefineMerklizedRootPosition P (Metadata schema)
            (claimReq_MerklizedRootPosition claimReq);
          w5 = invoke (Call_Process (claimReq_CredentialSchema claimReq) credentialType) w4 in
      case schemaService_Process s (store w5) (claimReq_CredentialSchema claimReq)
             credentialType vc
             \<lparr>opt_RevNonce = nonce,
              opt_MerklizedRootPosition = mtRootPostion,
              opt_Version = claimReq_Version claimReq,
              opt_SubjectPosition = claimReq_SubjectPos claimReq,
              opt_Updatable = False\<rparr> of
        Inl err \<Rightarrow>
          (Return (Some (CreateClaim400JSONResponse (Error err)), None),
           log_Error ''Can not process the schema'' err w5)
      | Inr coreClaim \<Rightarrow>
     (case FromClaimer P coreClaim (claimReq_CredentialSchema claimReq) credentialType of
        Inl err \<Rightarrow>
          (Return (Some (CreateClaim500JSONResponse (Error err)), None),
           log_Error ''Can not obtain the claim from claimer'' err w5)
      | Inr claim \<Rightarrow>
     (let w6 = invoke Call_GetAuthClaim w5 in
      case claimService_GetAuthClaim s (store w6) did of
        Inl err \<Rightarrow>
          (Return (Some (CreateClaim500JSONResponse (Error err)), None),
           log_Error ''Can not retrieve the auth claim'' err w6)
      | Inr authClaim \<Rightarrow>
     (let w7 = invoke Call_SignClaimEntry w6 in
      case identityService_SignClaimEntry s (store w7) authClaim coreClaim of
        Inl err \<Rightarrow>
          (Return (Some (CreateClaim500JSONResponse (Error err)), None),
           log_Error ''Can not sign claim entry'' err w7)
      | Inr proof \<Rightarrow>
     (let issuerDIDString = DID_String P did;
          claim1 = claim\<lparr>claim_Identifier := Some issuerDIDString, Issuer := issuerDIDString\<rparr>;
          w8 = invoke (Call_GetRevocationSource issuerDIDString (RevNonce authClaim)) w7;
          proof1 = proof\<lparr>IssuerData_CredentialStatus :=
            claimService_GetRevocationSource s (store w8) issuerDIDString (RevNonce authClaim)\<rparr> in
      case json_Marshal P proof1 of
        Inl err \<Rightarrow>
          (Return (Some (CreateClaim500JSONResponse (Error err)), None),
           log_Error ''Can not encode the json signature proof'' err w8)
      | Inr jsonSignatureProof \<Rightarrow>
     (case JSONB_Set P (Src_bytes jsonSignatureProof) of
        Inl err \<Rightarrow>
          (Return (Some (CreateClaim500JSONResponse (Error err)), None),
           log_Error ''Can not set the json signature proof'' err w8)
      | Inr j1 \<Rightarrow>
     (let claim2 = claim1\<lparr>SignatureProof := j1\<rparr> in
      case JSONB_Set P (Src_credential vc) of
        Inl err \<Rightarrow>
          (Return (Some (CreateClaim500JSONResponse (Error err)), None),
           log_Error ''Can not set the credential'' err w8)
      | Inr j2 \<Rightarrow>
     (let claim3 = claim2\<lparr>Data := j2\<rparr> in
      case JSONB_Set P (Src_any (vc_CredentialStatus vc)) of
        Inl err \<Rightarrow>
          (Return (Some (CreateClaim500JSONResponse (Error err)), None),
           log_Error ''Can not set the credential status'' err w8)
      | Inr j3 \<Rightarrow>
     (let claim4 = claim3\<lparr>CredentialStatus := j3\<rparr>;
          w9 = invoke (Call_Save claim4) w8 in
      case claimService_Save s (store w9) claim4 of (r, st') \<Rightarrow>
     (let w10 = w9\<lparr>store := st'\<rparr> in
      case r of
        Inl err \<Rightarrow>
          (Return (Some (CreateClaim500JSONResponse (Error err)), None),
           log_Error ''Can not save the claim'' err w10)
      | Inr claimResp \<Rightarrow>
          (Return (Some (CreateClaim201JSONResponse (UUID_String P (ID claimResp))), None),
           w10)))))))))))))))))))"

section \<open>Notions used to state the properties\<close>



text \<open>
  Modelled from the spec: the class of each response type (the generated API types, which
  bind a status code to each response, are not under src/). Sections 4.4 and 6: every
  outcome is one of Success, ClientFault (400), NotFound (404) and ServerFault (500); the
  status code is part of the name of the response type.
\<close>

datatype variant = Success | ClientFault | NotFound | ServerFault

fun CreateClaim_variant :: "CreateClaimResponseObject \<Rightarrow> variant" where
  "CreateClaim_variant (CreateClaim201JSONResponse _) = Success"
| "CreateClaim_variant (CreateClaim400JSONResponse _) = ClientFault"
| "CreateClaim_variant (CreateClaim500JSONResponse _) = ServerFault"

fun RevokeClaim_variant :: "RevokeClaimResponseObject \<Rightarrow> variant" where
  "RevokeClaim_variant (RevokeClaim202JSONResponse _) = Success"
| "RevokeClaim_variant (RevokeClaim404JSONResponse _) = NotFound"
| "RevokeClaim_variant (RevokeClaim500JSONResponse _) = ServerFault"

section \<open>Example collaborators\<close>

text \<open>
  Concrete packages and services on which the controllers can be run: DIDs are strings
  that start with \<open>did:\<close>, the persistent state is the list of saved claims, the entropy
  source is a counter. The argument \<open>fail\<close> names the one call that fails, if any; the
  schema the resolver returns has the given \<open>Uris\<close>, or no metadata at all for \<open>None\<close>. \<open>Set\<close>
  stores bytes and strings as they are and a nil source as null.
\<close>

datatype stage =
  Stage_Create | Stage_Revoke
| Stage_LoadSchema | Stage_Int64 | Stage_CreateVC | Stage_Process | Stage_FromClaimer
| Stage_GetAuthClaim | Stage_SignClaimEntry | Stage_Marshal | Stage_SetSignatureProof
| Stage_SetData | Stage_SetCredentialStatus | Stage_Save

definition failure :: "string \<Rightarrow> error" where
  "failure msg = \<lparr>Error = msg, Is_ErrClaimDoesNotExist = False\<rparr>"

definition demo_claim :: "string \<Rightarrow> 64 word \<Rightarrow> string Claim" where
  "demo_claim c n =
     \<lparr>ID = 0, claim_Identifier = None, Issuer = [], SchemaURL = [], SchemaType = [],
      RevNonce = n, CoreClaim = c, SignatureProof = JSONB_Undefined, Data = JSONB_Undefined,
      CredentialStatus = JSONB_Undefined\<rparr>"

definition demo_identity :: Identity where
  "demo_identity =
     \<lparr>identity_Identifier = ''did:iden3:polygon:mumbai:x1'', identity_Immutable = False,
      identity_Relay = [],
      identity_State = \<lparr>BlockNumber = None, BlockTimestamp = None, ClaimsTreeRoot = None,
        CreatedAt = 0, ModifiedAt = 0, PreviousState = None, RevocationTreeRoot = None,
        RootOfRoots = None, State = None, Status = ''created'', TxID = None\<rparr>\<rparr>"

definition demo_Packages ::
  "stage option \<Rightarrow> (string, unit, string, string, string, nat) Packages" where
  "demo_Packages fail =
     \<lparr>core_ParseDID = (\<lambda>x. if take 4 x = ''did:'' then Inr x else Inl (failure ''invalid did'')),
      DID_String = (\<lambda>d. d),
      ports_NewClaimRequest = (\<lambda>schema did cs subj ex ty ver sp mp.
        \<lparr>claimReq_Schema = schema, claimReq_DID = did, claimReq_CredentialSchema = cs,
         claimReq_CredentialSubject = subj, claimReq_Expiration = ex, claimReq_Type = ty,
         claimReq_Version = (case ver of None \<Rightarrow> 0 | Some v \<Rightarrow> v),
         claimReq_SubjectPos = (case sp of None \<Rightarrow> [] | Some p \<Rightarrow> p),
         claimReq_MerklizedRootPosition = (case mp of None \<Rightarrow> [] | Some p \<Rightarrow> p)\<rparr>),
      rand_Int64 = (\<lambda>n. if fail = Some Stage_Int64 then (Inl (failure ''entropy exhausted''), n)
                         else (Inr (of_nat n), Suc n)),
      common_DefineMerklizedRootPosition = (\<lambda>m p. p),
      domain_newClaim = (\<lambda>c. if fail = Some Stage_FromClaimer then Inl (failure ''no claim'')
                              else Inr (demo_claim c 0)),
      json_Marshal = (\<lambda>p. if fail = Some Stage_Marshal then Inl (failure ''no json'')
                           else Inr (''proof:'' @ proof_rest p)),
      JSONB_Set = (\<lambda>src. case src of
          Src_bytes b \<Rightarrow> if fail = Some Stage_SetSignatureProof then Inl (failure ''bad proof'')
                         else Inr (JSONB_Present b)
        | Src_credential v \<Rightarrow> if fail = Some Stage_SetData then Inl (failure ''bad credential'')
                         else Inr (JSONB_Present (vc_rest v))
        | Src_any a \<Rightarrow> if fail = Some Stage_SetCredentialStatus then Inl (failure ''bad status'')
                         else Inr (case a of AnyNil \<Rightarrow> JSONB_Null
                                   | AnyString t \<Rightarrow> JSONB_Present t
                                   | AnyOther t \<Rightarrow> JSONB_Present t)),
      UUID_String = (\<lambda>u. if u = 1 then ''00000000-0000-0000-0000-000000000001'' else ''other'')\<rparr>"

definition demo_Server ::
  "(string \<rightharpoonup> any) option \<Rightarrow> stage option \<Rightarrow>
   (string, unit, string, string, string, string Claim list) Server" where
  "demo_Server md fail =
     \<lparr>cfg_ServerUrl = ''http://localhost'',
      cfg_ServerPort = 3001,
      identityService_Create = (\<lambda>st origin.
        if fail = Some Stage_Create then (Inl (failure ''no identity''), st)
        else (Inr demo_identity, st)),
      identityService_SignClaimEntry = (\<lambda>st a c.
        if fail = Some Stage_SignClaimEntry then Inl (failure ''no signature'')
        else Inr \<lparr>IssuerData_CredentialStatus = AnyNil, proof_rest = ''sig''\<rparr>),
      claimService_CreateVC = (\<lambda>st r n.
        if fail = Some Stage_CreateVC then Inl (failure ''credential builder failed'')
        else Inr \<lparr>vc_CredentialStatus = AnyOther ''status'', vc_rest = ''vc''\<rparr>),
      claimService_GetAuthClaim = (\<lambda>st d.
        if fail = Some Stage_GetAuthClaim then Inl (failure ''no auth claim'')
        else Inr (demo_claim ''auth'' 7)),
      claimService_GetRevocationSource = (\<lambda>st d n. AnyOther ''source''),
      claimService_Save = (\<lambda>st c.
        if fail = Some Stage_Save then (Inl (failure ''store down''), st)
        else (Inr (c\<lparr>ID := of_nat (Suc (length st))\<rparr>), st @ [c])),
      claimService_Revoke = (\<lambda>st d n reason.
        if fail = Some Stage_Revoke then (Some (failure ''store down''), st)
        else if n \<in> RevNonce ` set st then (None, st)
        else (Some \<lparr>Error = ''claim does not exist'', Is_ErrClaimDoesNotExist = True\<rparr>, st)),
      schemaService_LoadSchema = (\<lambda>st uri.
        if fail = Some Stage_LoadSchema then Inl (failure ''schema unreachable'')
        else Inr \<lparr>Metadata = map_option (\<lambda>uris. \<lparr>Uris = uris, meta_rest = ()\<rparr>) md\<rparr>),
      schemaService_Process = (\<lambda>st url ty v opts.
        if fail = Some Stage_Process then Inl (failure ''can not encode'')
        else Inr ''core'')\<rparr>"

definition demo_uris :: "string \<rightharpoonup> any" where
  "demo_uris = [''jsonLdContext'' \<mapsto> AnyString ''https://x/ctx'']"

definition demo_world :: "(nat, string Claim list, string) world" where
  "demo_world = \<lparr>rng = 5, store = [], calls = [], logged = []\<rparr>"

definition demo_request :: "string \<Rightarrow> CreateClaimRequestObject" where
  "demo_request ident =
     \<lparr>Identifier = ident,
      Body = \<lparr>CredentialSchema = ''https://x/schema.json'', CredentialSubject = Map.empty,
        Expiration = None, MerklizedRootPosition = None, SubjectPosition = None,
        Type = ''Age'', Version = None\<rparr>\<rparr>"

definition demo_did :: string where
  "demo_did = ''did:iden3:polygon:mumbai:x1''"

definition demo_revoke :: RevokeClaimRequestObject where
  "demo_revoke = \<lparr>rev_Identifier = demo_did, rev_Nonce = 42\<rparr>"


text \<open>The responses of the example server when the call of stage \<open>k\<close> fails.\<close>

definition demo_response ::
  "stage \<Rightarrow> (CreateClaimResponseObject option \<times> error option) outcome" where
  "demo_response k =
     fst (CreateClaim (demo_Packages (Some k)) (demo_Server (Some demo_uris) (Some k)) demo_world
            (demo_request demo_did))"

text \<open>The worlds the example runs below end in, and a store that holds a claim of nonce 42.\<close>

definition demo_saved :: "string Claim" where
  "demo_saved =
     \<lparr>ID = 0, claim_Identifier = Some demo_did, Issuer = demo_did,
      SchemaURL = ''https://x/schema.json'', SchemaType = ''https://x/ctx#Age'',
      RevNonce = 0, CoreClaim = ''core'', SignatureProof = JSONB_Present ''proof:sig'',
      Data = JSONB_Present ''vc'', CredentialStatus = JSONB_Present ''status''\<rparr>"

definition demo_world_issued :: "(nat, string Claim list, string) world" where
  "demo_world_issued =
     \<lparr>rng = 6, store = [demo_saved],
      calls = [Call_LoadSchema ''https://x/schema.json'', Call_Int64, Call_CreateVC 5,
               Call_Process ''https://x/schema.json'' ''https://x/ctx#Age'',
               Call_GetAuthClaim, Call_SignClaimEntry,
               Call_GetRevocationSource demo_did 7, Call_Save demo_saved],
      logged = []\<rparr>"



definition demo_world_no_nonce :: "(nat, string Claim list, string) world" where
  "demo_world_no_nonce =
     \<lparr>rng = 5, store = [],
      calls = [Call_LoadSchema ''https://x/schema.json'', Call_Int64],
      logged = [(Level_Error, ''Can not create a nonce'', Some (failure ''entropy exhausted''))]\<rparr>"


definition demo_world_no_context :: "(nat, string Claim list, string) world" where
  "demo_world_no_context =
     \<lparr>rng = 6, store = [],
      calls = [Call_LoadSchema ''https://x/schema.json'', Call_Int64, Call_CreateVC 5],
      logged = [(Level_Warn, ''invalid jsonLdContext'', None)]\<rparr>"

definition demo_world_no_metadata :: "(nat, string Claim list, string) world" where
  "demo_world_no_metadata =
     \<lparr>rng = 6, store = [],
      calls = [Call_LoadSchema ''https://x/schema.json'', Call_Int64, Call_CreateVC 5],
      logged = []\<rparr>"

definition demo_world_42 :: "(nat, string Claim list, string) world" where
  "demo_world_42 = \<lparr>rng = 5, store = [demo_claim ''core'' 42], calls = [], logged = []\<rparr>"

section \<open>Auxiliary facts\<close>

lemmas world_defs = invoke_def log_Error_def log_Warn_def

lemmas demo_defs = demo_Packages_def demo_Server_def demo_uris_def demo_world_def
  demo_request_def demo_claim_def failure_def demo_identity_def

lemmas demo_defs2 = demo_defs demo_did_def

lemma demo_Packages_fields:
  "core_ParseDID (demo_Packages f) x =
     (if take 4 x = ''did:'' then Inr x else Inl (failure ''invalid did''))"
  "DID_String (demo_Packages f) d = d"
  "rand_Int64 (demo_Packages f) n =
     (if f = Some Stage_Int64 then (Inl (failure ''entropy exhausted''), n)
      else (Inr (of_nat n), Suc n))"
  "domain_newClaim (demo_Packages f) c =
     (if f = Some Stage_FromClaimer then Inl (failure ''no claim'') else Inr (demo_claim c 0))"
  "json_Marshal (demo_Packages f) p =
     (if f = Some Stage_Marshal then Inl (failure ''no json'') else Inr (''proof:'' @ proof_rest p))"
  "JSONB_Set (demo_Packages f) (Src_bytes b) =
     (if f = Some Stage_SetSignatureProof then Inl (failure ''bad proof'')
      else Inr (JSONB_Present b))"
  "JSONB_Set (demo_Packages f) (Src_credential v) =
     (if f = Some Stage_SetData then Inl (failure ''bad credential'')
      else Inr (JSONB_Present (vc_rest v)))"
  "JSONB_Set (demo_Packages f) (Src_any (AnyOther t)) =
     (if f = Some Stage_SetCredentialStatus then Inl (failure ''bad status'')
      else Inr (JSONB_Present t))"
  by (simp_all add: demo_Packages_def)

lemma demo_Server_fields:
  "identityService_SignClaimEntry (demo_Server md f) st a c =
     (if f = Some Stage_SignClaimEntry then Inl (failure ''no signature'')
      else Inr \<lparr>IssuerData_CredentialStatus = AnyNil, proof_rest = ''sig''\<rparr>)"
  "claimService_CreateVC (demo_Server md f) st r n =
     (if f = Some Stage_CreateVC then Inl (failure ''credential builder failed'')
      else Inr \<lparr>vc_CredentialStatus = AnyOther ''status'', vc_rest = ''vc''\<rparr>)"
  "claimService_GetAuthClaim (demo_Server md f) st d =
     (if f = Some Stage_GetAuthClaim then Inl (failure ''no auth claim'')
      else Inr (demo_claim ''auth'' 7))"
  "claimService_Save (demo_Server md f) st cl =
     (if f = Some Stage_Save then (Inl (failure ''store down''), st)
      else (Inr (cl\<lparr>ID := of_nat (Suc (length st))\<rparr>), st @ [cl]))"
  "schemaService_LoadSchema (demo_Server md f) st uri =
     (if f = Some Stage_LoadSchema then Inl (failure ''schema unreachable'')
      else Inr \<lparr>Metadata = map_option (\<lambda>uris. \<lparr>Uris = uris, meta_rest = ()\<rparr>) md\<rparr>)"
  "schemaService_Process (demo_Server md f) st url ty v opts =
     (if f = Some Stage_Process then Inl (failure ''can not encode'') else Inr ''core'')"
  by (simp_all add: demo_Server_def)

lemma Error_failure: "Error (failure msg) = msg"
  by (simp add: failure_def)

lemma demo_context: "assert_string (index demo_uris ''jsonLdContext'') = Some ''https://x/ctx''"
  by (simp add: demo_uris_def index_def)

text \<open>Two runs of the example server: a successful issuance, and a signing failure.\<close>

lemma demo_run_issued:
  "CreateClaim (demo_Packages None) (demo_Server (Some demo_uris) None) demo_world (demo_request demo_did) =
     (Return (Some (CreateClaim201JSONResponse ''00000000-0000-0000-0000-000000000001''), None),
      demo_world_issued)"
  by (simp add: CreateClaim_def demo_defs2 world_defs FromClaimer_def index_def Let_def
      demo_saved_def demo_world_issued_def)


section \<open>Properties\<close>




text \<open>
  C2. For a request whose identifier is a well-formed DID, each stage that fails after
  all earlier stages succeeded gives the response of its fault class: a failing schema
  resolution gives 400 with the resolver's message, a failing \<open>Process\<close> gives 400 with the
  encoder's message, and a failing \<open>CreateVC\<close>, \<open>FromClaimer\<close>, \<open>GetAuthClaim\<close>,
  \<open>SignClaimEntry\<close>, \<open>json.Marshal\<close>, any of the three \<open>Set\<close> calls, or \<open>Save\<close> gives 500 with
  the message of the error; the Go error is nil in each case. The stages after the
  context lookup are reached only with a schema that has metadata and a string-valued
  \<open>jsonLdContext\<close>.
\<close>

theorem CreateClaim_fault_classes:
  assumes "Identifier request \<noteq> []" and "core_ParseDID P (Identifier request) = Inr did"
  shows
  "(\<forall>e. schemaService_LoadSchema s (store w) (CredentialSchema (Body request)) = Inl e \<longrightarrow>
      fst (CreateClaim P s w request) = Return (Some (CreateClaim400JSONResponse (Error e)), None)) \<and>
   (\<forall>schema nonce rng' claimReq.
      schemaService_LoadSchema s (store w) (CredentialSchema (Body request)) = Inr schema \<and>
      rand_Int64 P (rng w) = (Inr nonce, rng') \<and>
      claimReq = ports_NewClaimRequest P schema did (CredentialSchema (Body request))
            (CredentialSubject (Body request)) (Expiration (Body request)) (Type (Body request))
            (Version (Body request)) (SubjectPosition (Body request))
            (MerklizedRootPosition (Body request)) \<longrightarrow>
      (\<forall>e. claimService_CreateVC s (store w) claimReq nonce = Inl e \<longrightarrow>
         fst (CreateClaim P s w request) = Return (Some (CreateClaim500JSONResponse (Error e)), None)) \<and>
      (\<forall>vc metadata jsonLdContext credentialType.
         claimService_CreateVC s (store w) claimReq nonce = Inr vc \<and>
         Metadata schema = Some metadata \<and>
         assert_string (index (Uris metadata) ''jsonLdContext'') = Some jsonLdContext \<and>
         credentialType = jsonLdContext @ ''#'' @ Type (Body request) \<longrightarrow>
         (\<forall>e. schemaService_Process s (store w) (claimReq_CredentialSchema claimReq)
                 credentialType vc
                 \<lparr>opt_RevNonce = nonce,
                  opt_MerklizedRootPosition =
                    common_DefineMerklizedRootPosition P (Metadata schema)
                      (claimReq_MerklizedRootPosition claimReq),
                  opt_Version = claimReq_Version claimReq,
                  opt_SubjectPosition = claimReq_SubjectPos claimReq,
                  opt_Updatable = False\<rparr> = Inl e \<longrightarrow>
            fst (CreateClaim P s w request) = Return (Some (CreateClaim400JSONResponse (Error e)), None)) \<and>
         (\<forall>coreClaim.
            schemaService_Process s (store w) (claimReq_CredentialSchema claimReq)
                 credentialType vc
                 \<lparr>opt_RevNonce = nonce,
                  opt_MerklizedRootPosition =
                    common_DefineMerklizedRootPosition P (Metadata schema)
                      (claimReq_MerklizedRootPosition claimReq),
                  opt_Version = claimReq_Version claimReq,
                  opt_SubjectPosition = claimReq_SubjectPos claimReq,
                  opt_Updatable = False\<rparr> = Inr coreClaim \<longrightarrow>
            (\<forall>e. FromClaimer P coreClaim (claimReq_CredentialSchema claimReq) credentialType = Inl e \<longrightarrow>
               fst (CreateClaim P s w request) = Return (Some (CreateClaim500JSONResponse (Error e)), None)) \<and>
            (\<forall>claim.
               FromClaimer P coreClaim (claimReq_CredentialSchema claimReq) credentialType = Inr claim \<longrightarrow>
               (\<forall>e. claimService_GetAuthClaim s (store w) did = Inl e \<longrightarrow>
                  fst (CreateClaim P s w request) = Return (Some (CreateClaim500JSONResponse (Error e)), None)) \<and>
               (\<forall>authClaim.
                  claimService_GetAuthClaim s (store w) did = Inr authClaim \<longrightarrow>
                  (\<forall>e. identityService_SignClaimEntry s (store w) authClaim coreClaim = Inl e \<longrightarrow>
                     fst (CreateClaim P s w request) = Return (Some (CreateClaim500JSONResponse (Error e)), None)) \<and>
                  (\<forall>proof proof1.
                     identityService_SignClaimEntry s (store w) authClaim coreClaim = Inr proof \<and>
                     proof1 = proof\<lparr>IssuerData_CredentialStatus :=
                        claimService_GetRevocationSource s (store w) (DID_String P did) (RevNonce authClaim)\<rparr> \<longrightarrow>
                     (\<forall>e. json_Marshal P proof1 = Inl e \<longrightarrow>
                        fst (CreateClaim P s w request) = Return (Some (CreateClaim500JSONResponse (Error e)), None)) \<and>
                     (\<forall>bytes.
                        json_Marshal P proof1 = Inr bytes \<longrightarrow>
                        (\<forall>e. JSONB_Set P (Src_bytes bytes) = Inl e \<longrightarrow>
                           fst (CreateClaim P s w request) = Return (Some (CreateClaim500JSONResponse (Error e)), None)) \<and>
                        (\<forall>j1. JSONB_Set P (Src_bytes bytes) = Inr j1 \<longrightarrow>
                           (\<forall>e. JSONB_Set P (Src_credential vc) = Inl e \<longrightarrow>
                              fst (CreateClaim P s w request) = Return (Some (CreateClaim500JSONResponse (Error e)), None)) \<and>
                           (\<forall>j2. JSONB_Set P (Src_credential vc) = Inr j2 \<longrightarrow>
                              (\<forall>e. JSONB_Set P (Src_any (vc_CredentialStatus vc)) = Inl e \<longrightarrow>
                                 fst (CreateClaim P s w request) = Return (Some (CreateClaim500JSONResponse (Error e)), None)) \<and>
                              (\<forall>j3 e st'. JSONB_Set P (Src_any (vc_CredentialStatus vc)) = Inr j3 \<and>
                                 claimService_Save s (store w)
                                   (claim\<lparr>claim_Identifier := Some (DID_String P did),
                                          Issuer := DID_String P did,
                                          SignatureProof := j1, Data := j2,
                                          CredentialStatus := j3\<rparr>) = (Inl e, st') \<longrightarrow>
                                 fst (CreateClaim P s w request) = Return (Some (CreateClaim500JSONResponse (Error e)), None)))))))))))"
  using assms
  by (auto simp add: CreateClaim_def Let_def world_defs)

text \<open>
  C2, on the example server: one run for each stage named in the property, with that
  stage failing.
\<close>

theorem CreateClaim_fault_classes_witness:
  "demo_response Stage_LoadSchema = Return (Some (CreateClaim400JSONResponse ''schema unreachable''), None) \<and>
   demo_response Stage_CreateVC = Return (Some (CreateClaim500JSONResponse ''credential builder failed''), None) \<and>
   demo_response Stage_Process = Return (Some (CreateClaim400JSONResponse ''can not encode''), None) \<and>
   demo_response Stage_FromClaimer = Return (Some (CreateClaim500JSONResponse ''no claim''), None) \<and>
   demo_response Stage_GetAuthClaim = Return (Some (CreateClaim500JSONResponse ''no auth claim''), None) \<and>
   demo_response Stage_SignClaimEntry = Return (Some (CreateClaim500JSONResponse ''no signature''), None) \<and>
   demo_response Stage_Marshal = Return (Some (CreateClaim500JSONResponse ''no json''), None) \<and>
   demo_response Stage_SetSignatureProof = Return (Some (CreateClaim500JSONResponse ''bad proof''), None) \<and>
   demo_response Stage_SetData = Return (Some (CreateClaim500JSONResponse ''bad credential''), None) \<and>
   demo_response Stage_SetCredentialStatus = Return (Some (CreateClaim500JSONResponse ''bad status''), None) \<and>
   demo_response Stage_Save = Return (Some (CreateClaim500JSONResponse ''store down''), None)"
proof -
  have i: "Identifier (demo_request demo_did) \<noteq> []"
    by (simp add: demo_defs2)
  have p: "core_ParseDID (demo_Packages (Some k)) (Identifier (demo_request demo_did)) = Inr demo_did"
    for k by (simp add: demo_defs2)
  have "demo_response Stage_LoadSchema =
      Return (Some (CreateClaim400JSONResponse ''schema unreachable''), None)"
    using CreateClaim_fault_classes [OF i p [of Stage_LoadSchema], where w = demo_world
        and s = "demo_Server (Some demo_uris) (Some Stage_LoadSchema)"]
    by (simp add: demo_response_def demo_Packages_fields demo_Server_fields Error_failure
        demo_context FromClaimer_def)
  moreover have "demo_response Stage_CreateVC =
      Return (Some (CreateClaim500JSONResponse ''credential builder failed''), None)"
    using CreateClaim_fault_classes [OF i p [of Stage_CreateVC], where w = demo_world
        and s = "demo_Server (Some demo_uris) (Some Stage_CreateVC)"]
    by (simp add: demo_response_def demo_Packages_fields demo_Server_fields Error_failure
        demo_context FromClaimer_def)
  moreover have "demo_response Stage_Process =
      Return (Some (CreateClaim400JSONResponse ''can not encode''), None)"
    using CreateClaim_fault_classes [OF i p [of Stage_Process], where w = demo_world
        and s = "demo_Server (Some demo_uris) (Some Stage_Process)"]
    by (simp add: demo_response_def demo_Packages_fields demo_Server_fields Error_failure
        demo_context FromClaimer_def)
  moreover have "demo_response Stage_FromClaimer =
      Return (Some (CreateClaim500JSONResponse ''no claim''), None)"
    using CreateClaim_fault_classes [OF i p [of Stage_FromClaimer], where w = demo_world
        and s = "demo_Server (Some demo_uris) (Some Stage_FromClaimer)"]
    by (simp add: demo_response_def demo_Packages_fields demo_Server_fields Error_failure
        demo_context FromClaimer_def)
  moreover have "demo_response Stage_GetAuthClaim =
      Return (Some (CreateClaim500JSONResponse ''no auth claim''), None)"
    using CreateClaim_fault_classes [OF i p [of Stage_GetAuthClaim], where w = demo_world
        and s = "demo_Server (Some demo_uris) (Some Stage_GetAuthClaim)"]
    by (simp add: demo_response_def demo_Packages_fields demo_Server_fields Error_failure
        demo_context FromClaimer_def)
  moreover have "demo_response Stage_SignClaimEntry =
      Return (Some (CreateClaim500JSONResponse ''no signature''), None)"
    using CreateClaim_fault_classes [OF i p [of Stage_SignClaimEntry], where w = demo_world
        and s = "demo_Server (Some demo_uris) (Some Stage_SignClaimEntry)"]
    by (simp add: demo_response_def demo_Packages_fields demo_Server_fields Error_failure
        demo_context FromClaimer_def)
  moreover have "demo_response Stage_Marshal =
      Return (Some (CreateClaim500JSONResponse ''no json''), None)"
    using CreateClaim_fault_classes [OF i p [of Stage_Marshal], where w = demo_world
        and s = "demo_Server (Some demo_uris) (Some Stage_Marshal)"]
    by (simp add: demo_response_def demo_Packages_fields demo_Server_fields Error_failure
        demo_context FromClaimer_def)
  moreover have "demo_response Stage_SetSignatureProof =
      Return (Some (CreateClaim500JSONResponse ''bad proof''), None)"
    using CreateClaim_fault_classes [OF i p [of Stage_SetSignatureProof], where w = demo_world
        and s = "demo_Server (Some demo_uris) (Some Stage_SetSignatureProof)"]
    by (simp add: demo_response_def demo_Packages_fields demo_Server_fields Error_failure
        demo_context FromClaimer_def)
  moreover have "demo_response Stage_SetData =
      Return (Some (CreateClaim500JSONResponse ''bad credential''), None)"
    using CreateClaim_fault_classes [OF i p [of Stage_SetData], where w = demo_world
        and s = "demo_Server (Some demo_uris) (Some Stage_SetData)"]
    by (simp add: demo_response_def demo_Packages_fields demo_Server_fields Error_failure
        demo_context FromClaimer_def)
  moreover have "demo_response Stage_SetCredentialStatus =
      Return (Some (CreateClaim500JSONResponse ''bad status''), None)"
    using CreateClaim_fault_classes [OF i p [of Stage_SetCredentialStatus], where w = demo_world
        and s = "demo_Server (Some demo_uris) (Some Stage_SetCredentialStatus)"]
    by (simp add: demo_response_def demo_Packages_fields demo_Server_fields Error_failure
        demo_context FromClaimer_def)
  moreover have "demo_response Stage_Save =
      Return (Some (CreateClaim500JSONResponse ''store down''), None)"
    using CreateClaim_fault_classes [OF i p [of Stage_Save], where w = demo_world
        and s = "demo_Server (Some demo_uris) (Some Stage_Save)"]
    by (simp add: demo_response_def demo_Packages_fields demo_Server_fields Error_failure
        demo_context FromClaimer_def)
  ultimately show ?thesis by simp
qed

text \<open>
  C3, as stated, fails: the schema of this run has metadata without a \<open>jsonLdContext\<close>, yet
  the response is the server-fault of the credential builder, which runs before the
  context is looked at.
\<close>

theorem CreateClaim_missing_jsonLdContext_counterexample:
  "schemaService_LoadSchema (demo_Server (Some Map.empty) (Some Stage_CreateVC)) (store demo_world)
     (CredentialSchema (Body (demo_request demo_did))) =
     Inr \<lparr>Metadata = Some \<lparr>Uris = Map.empty, meta_rest = ()\<rparr>\<rparr> \<and>
   assert_string (index Map.empty ''jsonLdContext'') = None \<and>
   fst (CreateClaim (demo_Packages (Some Stage_CreateVC))
         (demo_Server (Some Map.empty) (Some Stage_CreateVC)) demo_world (demo_request demo_did)) =
     Return (Some (CreateClaim500JSONResponse ''credential builder failed''), None) \<and>
   fst (CreateClaim (demo_Packages (Some Stage_CreateVC))
         (demo_Server (Some Map.empty) (Some Stage_CreateVC)) demo_world (demo_request demo_did)) \<noteq>
     Return (Some (CreateClaim400JSONResponse ''invalid jsonLdContext''), None)"
  by (simp add: CreateClaim_def demo_defs2 world_defs index_def Let_def)

text \<open>
  C3, amended. For every request whose resolved schema lacks a string-valued
  \<open>jsonLdContext\<close>, be it that the schema has no metadata or that its \<open>Uris\<close> hold no such
  string, CreateClaim invokes neither \<open>Process\<close>, \<open>GetAuthClaim\<close>, \<open>SignClaimEntry\<close>,
  \<open>GetRevocationSource\<close> nor \<open>Save\<close> and leaves the store as it was. A failing nonce
  generator or \<open>CreateVC\<close>, which run before the lookup, gives its 500; when both succeed
  and the schema has metadata, the response is 400 "invalid jsonLdContext". What the call
  answers when both succeed and the schema has no metadata is not stated here.
\<close>

theorem CreateClaim_missing_jsonLdContext:
  assumes "Identifier request \<noteq> []"
    and "core_ParseDID P (Identifier request) = Inr did"
    and "schemaService_LoadSchema s (store w) (CredentialSchema (Body request)) = Inr schema"
    and "\<forall>metadata. Metadata schema = Some metadata \<longrightarrow>
           assert_string (index (Uris metadata) ''jsonLdContext'') = None"
    and "CreateClaim P s w request = (out, w')"
  shows
  "store w' = store w \<and>
   (\<forall>resp err. out = Return (resp, err) \<longrightarrow> err = None) \<and>
   (\<exists>new. calls w' = calls w @ new \<and>
      Call_GetAuthClaim \<notin> set new \<and> Call_SignClaimEntry \<notin> set new \<and>
      (\<forall>u t. Call_Process u t \<notin> set new) \<and>
      (\<forall>d n. Call_GetRevocationSource d n \<notin> set new) \<and>
      (\<forall>c. Call_Save c \<notin> set new)) \<and>
   (\<forall>e rng'. rand_Int64 P (rng w) = (Inl e, rng') \<longrightarrow>
      out = Return (Some (CreateClaim500JSONResponse (Error e)), None)) \<and>
   (\<forall>nonce rng' claimReq.
      rand_Int64 P (rng w) = (Inr nonce, rng') \<and>
      claimReq = ports_NewClaimRequest P schema did (CredentialSchema (Body request))
            (CredentialSubject (Body request)) (Expiration (Body request)) (Type (Body request))
            (Version (Body request)) (SubjectPosition (Body request))
            (MerklizedRootPosition (Body request)) \<longrightarrow>
      (\<forall>e. claimService_CreateVC s (store w) claimReq nonce = Inl e \<longrightarrow>
         out = Return (Some (CreateClaim500JSONResponse (Error e)), None)) \<and>
      (\<forall>vc metadata.
         claimService_CreateVC s (store w) claimReq nonce = Inr vc \<and>
         Metadata schema = Some metadata \<longrightarrow>
         out = Return (Some (CreateClaim400JSONResponse ''invalid jsonLdContext''), None)))"
  using assms
  apply (simp add: CreateClaim_def Let_def world_defs
      split: sum.splits option.splits prod.splits if_splits)
  apply auto
  done

text \<open>
  C3, amended, on the example server: with a schema whose metadata has no URIs the
  response is 400 "invalid jsonLdContext"; with a schema without metadata the call ends
  at the lookup; in both runs neither the signing call nor \<open>Save\<close> was made and the store
  is as before.
\<close>

theorem CreateClaim_missing_jsonLdContext_witness:
  "Identifier (demo_request demo_did) \<noteq> [] \<and>
   core_ParseDID (demo_Packages None) (Identifier (demo_request demo_did)) = Inr demo_did \<and>
   schemaService_LoadSchema (demo_Server (Some Map.empty) None) (store demo_world)
     (CredentialSchema (Body (demo_request demo_did))) =
     Inr \<lparr>Metadata = Some \<lparr>Uris = Map.empty, meta_rest = ()\<rparr>\<rparr> \<and>
   assert_string (index Map.empty ''jsonLdContext'') = None \<and>
   CreateClaim (demo_Packages None) (demo_Server (Some Map.empty) None) demo_world
     (demo_request demo_did) =
     (Return (Some (CreateClaim400JSONResponse ''invalid jsonLdContext''), None),
      demo_world_no_context) \<and>
   store demo_world_no_context = store demo_world \<and>
   (\<exists>new. calls demo_world_no_context = calls demo_world @ new \<and>
      Call_SignClaimEntry \<notin> set new \<and> (\<forall>c. Call_Save c \<notin> set new)) \<and>
   schemaService_LoadSchema (demo_Server None None) (store demo_world)
     (CredentialSchema (Body (demo_request demo_did))) = Inr \<lparr>Metadata = None\<rparr> \<and>
   snd (CreateClaim (demo_Packages None) (demo_Server None None) demo_world
     (demo_request demo_did)) = demo_world_no_metadata \<and>
   store demo_world_no_metadata = store demo_world \<and>
   (\<exists>new. calls demo_world_no_metadata = calls demo_world @ new \<and>
      Call_SignClaimEntry \<notin> set new \<and> (\<forall>c. Call_Save c \<notin> set new))"
proof -
  have i: "Identifier (demo_request demo_did) \<noteq> []"
    by (simp add: demo_defs2)
  have p: "core_ParseDID (demo_Packages None) (Identifier (demo_request demo_did)) = Inr demo_did"
    by (simp add: demo_defs2)
  have l: "schemaService_LoadSchema (demo_Server (Some Map.empty) None) (store demo_world)
     (CredentialSchema (Body (demo_request demo_did))) =
     Inr \<lparr>Metadata = Some \<lparr>Uris = Map.empty, meta_rest = ()\<rparr>\<rparr>"
    by (simp add: demo_Server_def)
  have a: "\<forall>metadata. Metadata \<lparr>Metadata = Some \<lparr>Uris = Map.empty, meta_rest = ()\<rparr>\<rparr> =
      Some metadata \<longrightarrow> assert_string (index (Uris metadata) ''jsonLdContext'') = None"
    by (simp add: index_def)
  have a': "assert_string (index Map.empty ''jsonLdContext'') = None"
    by (simp add: index_def)
  have run: "CreateClaim (demo_Packages None) (demo_Server (Some Map.empty) None) demo_world
      (demo_request demo_did) =
     (Return (Some (CreateClaim400JSONResponse ''invalid jsonLdContext''), None),
      demo_world_no_context)"
    by (simp add: CreateClaim_def demo_defs2 world_defs index_def Let_def demo_world_no_context_def)
  have l0: "schemaService_LoadSchema (demo_Server None None) (store demo_world)
     (CredentialSchema (Body (demo_request demo_did))) = Inr \<lparr>Metadata = None\<rparr>"
    by (simp add: demo_Server_def)
  have a0: "\<forall>metadata. Metadata \<lparr>Metadata = None\<rparr> = Some metadata \<longrightarrow>
      assert_string (index (Uris (metadata :: unit SchemaMetadata)) ''jsonLdContext'') = None"
    by simp
  have run0: "CreateClaim (demo_Packages None) (demo_Server None None) demo_world
      (demo_request demo_did) = (Panic, demo_world_no_metadata)"
    by (simp add: CreateClaim_def demo_defs2 world_defs Let_def demo_world_no_metadata_def)
  from CreateClaim_missing_jsonLdContext [OF i p l a run]
    CreateClaim_missing_jsonLdContext [OF i p l0 a0 run0]
  show ?thesis
    using i p l a' run l0 run0 by auto
qed

text \<open>
  C4. In every run of CreateClaim in which the nonce generator is invoked and fails, the
  response is 500 with the generator's message and a nil error, the only collaborator
  calls made are the schema resolution and the generator itself, so \<open>Save\<close> is never
  invoked, and the store is unchanged. (The generator is invoked exactly when the
  identifier is a well-formed DID and the schema resolves.)
\<close>

theorem CreateClaim_nonce_failure:
  "CreateClaim P s w request = (out, w') \<Longrightarrow>
   calls w' = calls w @ new \<Longrightarrow> Call_Int64 \<in> set new \<Longrightarrow>
   rand_Int64 P (rng w) = (Inl e, rng') \<Longrightarrow>
   out = Return (Some (CreateClaim500JSONResponse (Error e)), None) \<and>
   new = [Call_LoadSchema (CredentialSchema (Body request)), Call_Int64] \<and>
   (\<forall>c. Call_Save c \<notin> set new) \<and> store w' = store w"
  apply (simp add: CreateClaim_def Let_def world_defs split: sum.splits option.splits prod.splits if_splits)
  apply auto
  done

text \<open>
  C4, on the example server with an exhausted entropy source.
\<close>

theorem CreateClaim_nonce_failure_witness:
  "CreateClaim (demo_Packages (Some Stage_Int64)) (demo_Server (Some demo_uris) (Some Stage_Int64))
     demo_world (demo_request demo_did) =
     (Return (Some (CreateClaim500JSONResponse ''entropy exhausted''), None), demo_world_no_nonce) \<and>
   calls demo_world_no_nonce =
     calls demo_world @ [Call_LoadSchema ''https://x/schema.json'', Call_Int64] \<and>
   rand_Int64 (demo_Packages (Some Stage_Int64)) (rng demo_world) =
     (Inl (failure ''entropy exhausted''), 5) \<and>
   (\<forall>c. Call_Save c \<notin> set [Call_LoadSchema ''https://x/schema.json'', Call_Int64 :: string call]) \<and>
   store demo_world_no_nonce = store demo_world"
proof -
  have run: "CreateClaim (demo_Packages (Some Stage_Int64)) (demo_Server (Some demo_uris) (Some Stage_Int64))
     demo_world (demo_request demo_did) =
     (Return (Some (CreateClaim500JSONResponse ''entropy exhausted''), None), demo_world_no_nonce)"
    by (simp add: CreateClaim_def demo_defs2 world_defs Let_def demo_world_no_nonce_def)
  have cs: "calls demo_world_no_nonce =
     calls demo_world @ [Call_LoadSchema ''https://x/schema.json'', Call_Int64]"
    by (simp add: demo_world_no_nonce_def demo_world_def)
  have inv: "Call_Int64 \<in> set [Call_LoadSchema ''https://x/schema.json'', Call_Int64 :: string call]"
    by simp
  have gen: "rand_Int64 (demo_Packages (Some Stage_Int64)) (rng demo_world) =
     (Inl (failure ''entropy exhausted''), 5)"
    by (simp add: demo_defs)
  from CreateClaim_nonce_failure [OF run cs inv gen] run cs gen
  show ?thesis by simp
qed



text \<open>
  C6. Whatever the Claim Store's \<open>Revoke\<close> returns for the identifier and nonce of the
  request: on success RevokeClaim responds 202 with status "pending"; on an error for
  which \<open>errors.Is(err, ErrClaimDoesNotExist)\<close> holds it responds 404 with the message
  "the claim does not exist"; on any other error it responds 500 with the error's message;
  and the response is a 404 exactly when the store reported that error.
\<close>

theorem RevokeClaim_outcomes:
  "claimService_Revoke s (store w) (rev_Identifier request) (rev_Nonce request) [] = (r, st') \<Longrightarrow>
   (r = None \<longrightarrow>
      fst (RevokeClaim s w request) = (Some (RevokeClaim202JSONResponse ''pending''), None)) \<and>
   (\<forall>err. r = Some err \<and> Is_ErrClaimDoesNotExist err \<longrightarrow>
      fst (RevokeClaim s w request) =
        (Some (RevokeClaim404JSONResponse ''the claim does not exist''), None)) \<and>
   (\<forall>err. r = Some err \<and> \<not> Is_ErrClaimDoesNotExist err \<longrightarrow>
      fst (RevokeClaim s w request) = (Some (RevokeClaim500JSONResponse (Error err)), None)) \<and>
   ((\<exists>msg. fst (fst (RevokeClaim s w request)) = Some (RevokeClaim404JSONResponse msg)) \<longleftrightarrow>
      (\<exists>err. r = Some err \<and> Is_ErrClaimDoesNotExist err))"
  by (auto simp add: RevokeClaim_def Let_def world_defs split: option.splits)

text \<open>
  C6, on the example server: nonce 42 unknown to the store (404), the store failing (500),
  and nonce 42 present in the store (202).
\<close>

theorem RevokeClaim_outcomes_witness:
  "claimService_Revoke (demo_Server (Some demo_uris) None) (store demo_world)
     (rev_Identifier demo_revoke) (rev_Nonce demo_revoke) [] =
     (Some \<lparr>Error = ''claim does not exist'', Is_ErrClaimDoesNotExist = True\<rparr>, []) \<and>
   fst (RevokeClaim (demo_Server (Some demo_uris) None) demo_world demo_revoke) =
     (Some (RevokeClaim404JSONResponse ''the claim does not exist''), None) \<and>
   claimService_Revoke (demo_Server (Some demo_uris) (Some Stage_Revoke)) (store demo_world)
     (rev_Identifier demo_revoke) (rev_Nonce demo_revoke) [] =
     (Some (failure ''store down''), []) \<and>
   fst (RevokeClaim (demo_Server (Some demo_uris) (Some Stage_Revoke)) demo_world demo_revoke) =
     (Some (RevokeClaim500JSONResponse ''store down''), None) \<and>
   claimService_Revoke (demo_Server (Some demo_uris) None) (store demo_world_42)
     (rev_Identifier demo_revoke) (rev_Nonce demo_revoke) [] =
     (None, [demo_claim ''core'' 42]) \<and>
   fst (RevokeClaim (demo_Server (Some demo_uris) None) demo_world_42 demo_revoke) =
     (Some (RevokeClaim202JSONResponse ''pending''), None)"
proof -
  have a: "claimService_Revoke (demo_Server (Some demo_uris) None) (store demo_world)
     (rev_Identifier demo_revoke) (rev_Nonce demo_revoke) [] =
     (Some \<lparr>Error = ''claim does not exist'', Is_ErrClaimDoesNotExist = True\<rparr>, [])"
    by (simp add: demo_defs demo_revoke_def)
  have b: "claimService_Revoke (demo_Server (Some demo_uris) (Some Stage_Revoke)) (store demo_world)
     (rev_Identifier demo_revoke) (rev_Nonce demo_revoke) [] =
     (Some (failure ''store down''), [])"
    by (simp add: demo_defs demo_revoke_def)
  have c: "claimService_Revoke (demo_Server (Some demo_uris) None) (store demo_world_42)
     (rev_Identifier demo_revoke) (rev_Nonce demo_revoke) [] =
     (None, [demo_claim ''core'' 42])"
    by (simp add: demo_defs demo_revoke_def demo_world_42_def)
  show ?thesis
    using a b c RevokeClaim_outcomes [OF a] RevokeClaim_outcomes [OF b] RevokeClaim_outcomes [OF c]
    by (simp add: failure_def)
qed

text \<open>
  C7, as stated, fails: when the Identity Manager's \<open>Create\<close> fails, CreateIdentity returns
  no response object at all and the Identity Manager's error as its Go error.
\<close>

theorem CreateIdentity_failure_counterexample:
  "identityService_Create (demo_Server (Some demo_uris) (Some Stage_Create)) (store demo_world)
     ''http://localhost:3001'' = (Inl (failure ''no identity''), []) \<and>
   fst (CreateIdentity (demo_Server (Some demo_uris) (Some Stage_Create)) demo_world ()) =
     (None, Some (failure ''no identity'')) \<and>
   calls (snd (CreateIdentity (demo_Server (Some demo_uris) (Some Stage_Create)) demo_world ())) =
     [Call_Create ''http://localhost:3001'']"
  by (simp add: CreateIdentity_def demo_defs world_defs Let_def Sprintf_d_def digit_def)

text \<open>
  C7, amended. When the Identity Manager's \<open>Create\<close> fails, CreateIdentity returns a nil
  response together with that error, unchanged; when it succeeds, CreateIdentity returns
  a response and a nil error. Every return of CreateClaim has a nil error and one
  response that is a Success, a ClientFault or a ServerFault, and CreateClaim returns
  unless the resolved schema has no metadata. Every run of RevokeClaim returns a nil
  error and one response that is a Success, a NotFound or a ServerFault.
\<close>

theorem typed_response_variants:
  "(\<forall>e st'. identityService_Create s (store w)
        (cfg_ServerUrl s @ '':'' @ Sprintf_d (cfg_ServerPort s)) = (Inl e, st') \<longrightarrow>
      fst (CreateIdentity s w request) = (None, Some e)) \<and>
   (\<forall>i st'. identityService_Create s (store w)
        (cfg_ServerUrl s @ '':'' @ Sprintf_d (cfg_ServerPort s)) = (Inr i, st') \<longrightarrow>
      (\<exists>r. fst (CreateIdentity s w request) = (Some r, None))) \<and>
   (\<forall>ret. fst (CreateClaim P s w claimRequest) = Return ret \<longrightarrow>
      (\<exists>r. ret = (Some r, None) \<and>
           CreateClaim_variant r \<in> {Success, ClientFault, ServerFault})) \<and>
   (fst (CreateClaim P s w claimRequest) = Panic \<longrightarrow>
      (\<exists>schema. schemaService_LoadSchema s (store w) (CredentialSchema (Body claimRequest)) =
         Inr schema \<and> Metadata schema = None)) \<and>
   (\<exists>r. fst (RevokeClaim s w revokeRequest) = (Some r, None) \<and>
        RevokeClaim_variant r \<in> {Success, NotFound, ServerFault})"
proof (intro conjI)
  show "\<forall>ret. fst (CreateClaim P s w claimRequest) = Return ret \<longrightarrow>
      (\<exists>r. ret = (Some r, None) \<and>
           CreateClaim_variant r \<in> {Success, ClientFault, ServerFault})"
    by (auto simp add: CreateClaim_def Let_def split: sum.splits option.splits prod.splits)
  show "fst (CreateClaim P s w claimRequest) = Panic \<longrightarrow>
      (\<exists>schema. schemaService_LoadSchema s (store w) (CredentialSchema (Body claimRequest)) =
         Inr schema \<and> Metadata schema = None)"
    by (auto simp add: CreateClaim_def Let_def world_defs
        split: sum.splits option.splits prod.splits if_splits)
  show "\<exists>r. fst (RevokeClaim s w revokeRequest) = (Some r, None) \<and>
        RevokeClaim_variant r \<in> {Success, NotFound, ServerFault}"
    by (simp add: RevokeClaim_def Let_def split: option.splits prod.splits)
qed (auto simp add: CreateIdentity_def Let_def world_defs)

text \<open>
  C7, amended, on the example server: a failing and a succeeding \<open>Create\<close>, and a
  CreateClaim that returns a Success.
\<close>

theorem typed_response_variants_witness:
  "identityService_Create (demo_Server (Some demo_uris) (Some Stage_Create)) (store demo_world)
     (cfg_ServerUrl (demo_Server (Some demo_uris) (Some Stage_Create)) @ '':'' @
      Sprintf_d (cfg_ServerPort (demo_Server (Some demo_uris) (Some Stage_Create)))) =
     (Inl (failure ''no identity''), []) \<and>
   fst (CreateIdentity (demo_Server (Some demo_uris) (Some Stage_Create)) demo_world ()) =
     (None, Some (failure ''no identity'')) \<and>
   identityService_Create (demo_Server (Some demo_uris) None) (store demo_world)
     (cfg_ServerUrl (demo_Server (Some demo_uris) None) @ '':'' @
      Sprintf_d (cfg_ServerPort (demo_Server (Some demo_uris) None))) = (Inr demo_identity, []) \<and>
   (\<exists>r. fst (CreateIdentity (demo_Server (Some demo_uris) None) demo_world ()) = (Some r, None)) \<and>
   fst (CreateClaim (demo_Packages None) (demo_Server (Some demo_uris) None) demo_world
     (demo_request demo_did)) =
     Return (Some (CreateClaim201JSONResponse ''00000000-0000-0000-0000-000000000001''), None) \<and>
   CreateClaim_variant (CreateClaim201JSONResponse ''00000000-0000-0000-0000-000000000001'') \<in>
     {Success, ClientFault, ServerFault}"
proof -
  have f: "identityService_Create (demo_Server (Some demo_uris) (Some Stage_Create))
     (store demo_world)
     (cfg_ServerUrl (demo_Server (Some demo_uris) (Some Stage_Create)) @ '':'' @
      Sprintf_d (cfg_ServerPort (demo_Server (Some demo_uris) (Some Stage_Create)))) =
     (Inl (failure ''no identity''), [])"
    by (simp add: demo_Server_def demo_world_def)
  have g: "identityService_Create (demo_Server (Some demo_uris) None) (store demo_world)
     (cfg_ServerUrl (demo_Server (Some demo_uris) None) @ '':'' @
      Sprintf_d (cfg_ServerPort (demo_Server (Some demo_uris) None))) = (Inr demo_identity, [])"
    by (simp add: demo_Server_def demo_world_def)
  have r: "fst (CreateClaim (demo_Packages None) (demo_Server (Some demo_uris) None) demo_world
     (demo_request demo_did)) =
     Return (Some (CreateClaim201JSONResponse ''00000000-0000-0000-0000-000000000001''), None)"
    by (simp add: demo_run_issued)
  have v: "CreateClaim_variant
      (CreateClaim201JSONResponse ''00000000-0000-0000-0000-000000000001'') \<in>
     {Success, ClientFault, ServerFault}"
    using r typed_response_variants [where s = "demo_Server (Some demo_uris) None"
        and w = demo_world and request = "()" and P = "demo_Packages None"
        and claimRequest = "demo_request demo_did"]
    by auto
  show ?thesis
    using f g r v
      typed_response_variants [where s = "demo_Server (Some demo_uris) (Some Stage_Create)"
        and w = demo_world and request = "()" and P = "demo_Packages None"]
      typed_response_variants [where s = "demo_Server (Some demo_uris) None"
        and w = demo_world and request = "()" and P = "demo_Packages None"]
    by blast
qed

text \<open>
  C8. When the identifier is the empty string, CreateClaim returns 400 with the message
  "Invalid request identifier" and the world is untouched: no collaborator is invoked.
  When the identifier is not empty and \<open>core.ParseDID\<close> rejects it, CreateClaim returns 400
  with the parser's message and the world is untouched as well: the schema is not
  resolved.
\<close>

theorem CreateClaim_identifier_checked_first:
  "(Identifier request = [] \<longrightarrow>
      CreateClaim P s w request =
        (Return (Some (CreateClaim400JSONResponse ''Invalid request identifier''), None), w)) \<and>
   (Identifier request \<noteq> [] \<longrightarrow>
      (\<forall>err. core_ParseDID P (Identifier request) = Inl err \<longrightarrow>
         CreateClaim P s w request =
           (Return (Some (CreateClaim400JSONResponse (Error err)), None), w)))"
  by (simp add: CreateClaim_def)

text \<open>
  C8, on the example server: the empty identifier, and an identifier that is no DID.
\<close>

theorem CreateClaim_identifier_checked_first_witness:
  "Identifier (demo_request []) = [] \<and>
   CreateClaim (demo_Packages None) (demo_Server (Some demo_uris) None) demo_world (demo_request []) =
     (Return (Some (CreateClaim400JSONResponse ''Invalid request identifier''), None), demo_world) \<and>
   Identifier (demo_request ''alice'') \<noteq> [] \<and>
   core_ParseDID (demo_Packages None) (Identifier (demo_request ''alice'')) =
     Inl (failure ''invalid did'') \<and>
   CreateClaim (demo_Packages None) (demo_Server (Some demo_uris) None) demo_world (demo_request ''alice'') =
     (Return (Some (CreateClaim400JSONResponse ''invalid did''), None), demo_world)"
proof -
  have e: "Identifier (demo_request []) = []"
    by (simp add: demo_request_def)
  have n: "Identifier (demo_request ''alice'') \<noteq> []"
    by (simp add: demo_request_def)
  have p: "core_ParseDID (demo_Packages None) (Identifier (demo_request ''alice'')) =
     Inl (failure ''invalid did'')"
    by (simp add: demo_request_def demo_Packages_def)
  show ?thesis
    using e n p
      CreateClaim_identifier_checked_first
        [of "demo_request []" "demo_Packages None" "demo_Server (Some demo_uris) None" demo_world]
      CreateClaim_identifier_checked_first
        [of "demo_request ''alice''" "demo_Packages None" "demo_Server (Some demo_uris) None" demo_world]
    by (simp add: failure_def)
qed

text \<open>
  C9. Whenever CreateClaim returns the 201 response, the schema resolved with a
  string-valued \<open>jsonLdContext\<close>, and the credential type of the claim handed to \<open>Save\<close>, which
  is also the credential type given to \<open>Process\<close>, is that context URI followed by \<open>#\<close> and
  the requested claim type.
\<close>

theorem CreateClaim_credential_type:
  "CreateClaim P s w request = (Return (Some (CreateClaim201JSONResponse rid), err), w') \<Longrightarrow>
   (\<exists>schema metadata jsonLdContext claim new.
      schemaService_LoadSchema s (store w) (CredentialSchema (Body request)) = Inr schema \<and>
      Metadata schema = Some metadata \<and>
      assert_string (index (Uris metadata) ''jsonLdContext'') = Some jsonLdContext \<and>
      calls w' = calls w @ new @ [Call_Save claim] \<and>
      SchemaType claim = jsonLdContext @ ''#'' @ Type (Body request) \<and>
      (\<exists>url. Call_Process url (jsonLdContext @ ''#'' @ Type (Body request)) \<in> set new))"
  apply (simp add: CreateClaim_def Let_def world_defs FromClaimer_def
      split: sum.splits option.splits prod.splits if_splits)
  apply auto
  done

text \<open>
  C9, on the example server: the context is "https://x/ctx", the claim type is "Age", and
  the credential type of the saved claim is "https://x/ctx#Age".
\<close>

theorem CreateClaim_credential_type_witness:
  "CreateClaim (demo_Packages None) (demo_Server (Some demo_uris) None) demo_world (demo_request demo_did) =
     (Return (Some (CreateClaim201JSONResponse ''00000000-0000-0000-0000-000000000001''), None),
      demo_world_issued) \<and>
   schemaService_LoadSchema (demo_Server (Some demo_uris) None) (store demo_world)
     (CredentialSchema (Body (demo_request demo_did))) =
     Inr \<lparr>Metadata = Some \<lparr>Uris = demo_uris, meta_rest = ()\<rparr>\<rparr> \<and>
   assert_string (index demo_uris ''jsonLdContext'') = Some ''https://x/ctx'' \<and>
   Type (Body (demo_request demo_did)) = ''Age'' \<and>
   (\<exists>claim new. calls demo_world_issued = calls demo_world @ new @ [Call_Save claim] \<and>
      SchemaType claim = ''https://x/ctx#Age'')"
proof -
  have l: "schemaService_LoadSchema (demo_Server (Some demo_uris) None) (store demo_world)
     (CredentialSchema (Body (demo_request demo_did))) =
     Inr \<lparr>Metadata = Some \<lparr>Uris = demo_uris, meta_rest = ()\<rparr>\<rparr>"
    by (simp add: demo_Server_def)
  have a: "assert_string (index demo_uris ''jsonLdContext'') = Some ''https://x/ctx''"
    by (simp add: demo_uris_def index_def)
  have t: "Type (Body (demo_request demo_did)) = ''Age''"
    by (simp add: demo_request_def)
  from CreateClaim_credential_type [OF demo_run_issued]
  show ?thesis
    using demo_run_issued l a t by auto
qed

text \<open>
  C10. For every server, world and request, Health returns the constant payload with
  Cache = true and Db = false and a nil error, and leaves the world as it was.
\<close>

theorem Health_constant:
  "Health s w request = ((Some \<lparr>Cache = True, Db = False\<rparr>, None), w)"
  by (simp add: Health_def)

end
